theory Spec2Isabelle
  imports Main "HOL-Library.Word"
begin

section \<open>Decimal rendering\<close>

text \<open>
  The \<^verbatim>\<open>%d\<close> verb of Go's \<^verbatim>\<open>fmt\<close> package on an integer: the decimal digits, with a
  leading minus sign for a negative number. \<open>digit_char\<close> is only applied to numbers
  below 10.
\<close>

definition digit_char :: "nat \<Rightarrow> char" where
  "digit_char d = ''0123456789'' ! d"

fun show_nat :: "nat \<Rightarrow> string" where
  "show_nat n = (if n < 10 then [digit_char n] else show_nat (n div 10) @ [digit_char (n mod 10)])"

declare show_nat.simps [simp del]

definition show_int :: "int \<Rightarrow> string" where
  "show_int i = (if i < 0 then CHR ''-'' # show_nat (nat (- i)) else show_nat (nat i))"

section \<open>Errors\<close>

text \<open>
  Every error of the package is built by \<^verbatim>\<open>fmt.Errorf\<close>. One constructor stands for each
  call site; \<open>External\<close> is an error reported by the operating system or by a library,
  known by its message. \<open>error_text\<close> is the message the error carries (\<^verbatim>\<open>err.Error()\<close>).
\<close>

datatype error =
    External string
  | StartFailed error
  | KillFailed error
  | EvalNotImplemented
  | LoadNotImplemented
  | BindingExists string
  | NotConnected
  | SendFailed error
  | UnexpectedResponseType
  | NavigationError string
  | EvaluationError string
  | MarshalFailed error
  | UnmarshalFailed error
  | PortNotOpen string nat
  | GetFailed error
  | DecodeFailed error
  | NoTargets
  | DialFailed error
  | RetriesExhausted int "error option"
  | ProfileDeleteFailed error

fun error_text :: "error \<Rightarrow> string" where
  "error_text (External m) = m"
| "error_text (StartFailed e) = ''failed to start browser: '' @ error_text e"
| "error_text (KillFailed e) = ''failed to kill browser process: '' @ error_text e"
| "error_text EvalNotImplemented = ''Eval not implemented''"
| "error_text LoadNotImplemented = ''Load not implemented''"
| "error_text (BindingExists name) = ''binding '' @ name @ '' already exists''"
| "error_text NotConnected = ''WebSocket connection is not established''"
| "error_text (SendFailed e) = ''failed to send WebSocket message: '' @ error_text e"
| "error_text UnexpectedResponseType = ''unexpected response type''"
| "error_text (NavigationError m) = ''navigation error: '' @ m"
| "error_text (EvaluationError m) = ''evaluation error: '' @ m"
| "error_text (MarshalFailed e) = ''failed to marshal response: '' @ error_text e"
| "error_text (UnmarshalFailed e) = ''failed to unmarshal response: '' @ error_text e"
| "error_text (PortNotOpen family port) =
     family @ '' remote debugging port '' @ show_nat port @ '' is not open''"
| "error_text (GetFailed e) = ''failed to get WebSocket debugger URL: '' @ error_text e"
| "error_text (DecodeFailed e) = ''failed to decode JSON response: '' @ error_text e"
| "error_text NoTargets = ''no WebSocket targets found''"
| "error_text (DialFailed e) = ''failed to dial WebSocket: '' @ error_text e"
| "error_text (RetriesExhausted n lasterr) =
     ''failed to connect to WebSocket after '' @ show_int n @ '' attempts: ''
       @ (case lasterr of None \<Rightarrow> ''<nil>'' | Some e \<Rightarrow> error_text e)"
| "error_text (ProfileDeleteFailed e) =
     ''failed to delete Firefox profile directory: '' @ error_text e"

section \<open>JSON values and protocol messages\<close>

text \<open>
  A JSON document as \<^verbatim>\<open>encoding/json\<close> sees it. An object keeps its members in the order
  of the text, duplicates included. Numbers are the integers a \<^verbatim>\<open>float64\<close> holds exactly;
  fractions are outside this model.
\<close>

datatype json =
    JNull
  | JBool bool
  | JNum int
  | JStr string
  | JArr "json list"
  | JObj "(string \<times> json) list"

text \<open>\<^verbatim>\<open>browser.Result\<close>: a reply frame. \<open>Result\<close> is the raw JSON kept for later decoding
  (\<open>None\<close> when the frame had no such member), \<open>Error\<close> the optional error object.\<close>

record reply_error =
  Code :: int
  Message :: string

record result =
  ID :: "32 word"
  Result :: "json option"
  Error :: "reply_error option"

text \<open>The request frames written by \<^verbatim>\<open>Load\<close> and \<^verbatim>\<open>Eval\<close>.\<close>

record request =
  req_id :: "32 word"
  req_method :: string
  req_params :: "(string \<times> string) list"

section \<open>The session\<close>

text \<open>
  \<^verbatim>\<open>exec.Cmd\<close> with the process handle that \<^verbatim>\<open>Cmd.Start\<close> fills in. \<open>Alive\<close> is the
  operating system's side of the handle: whether the process still runs.
\<close>

record process =
  Pid :: nat
  Alive :: bool

record cmd =
  CmdPath :: string
  Args :: "string list"
  Process :: "process option"

text \<open>The websocket connection: whether it was closed, and the frames written to it.\<close>

record conn =
  Closed :: bool
  Written :: "request list"

text \<open>A channel made by \<^verbatim>\<open>make(chan interface{})\<close>, known by the order of its creation; the
  values sent over it are \<^verbatim>\<open>interface{}\<close> values, of which the code tells a
  \<^verbatim>\<open>browser.Result\<close> from anything else.\<close>

datatype chan = Chan nat

datatype dyn = DynResult result | DynOther

text \<open>Where the goroutine running \<^verbatim>\<open>handleResponse\<close> stands.\<close>

datatype handler =
    NotStarted
  | AtSelect
  | Receiving
  | AtLock result
  | Sending chan result
  | Exited
  | Crashed

text \<open>
  \<^verbatim>\<open>BaseBrowser\<close>. \<open>Mutex\<close> is the embedded \<^verbatim>\<open>sync.Mutex\<close> (\<open>True\<close> when held), \<open>Done\<close>
  tells whether the stop channel has been closed and \<open>Wg\<close> is the counter of the wait
  group. Both constructors allocate the two maps and set \<open>Cmd\<close> before any method runs,
  so the maps are never nil here. The last four fields are not fields of the struct:
  \<open>Handler\<close> is the state of the goroutine started by \<^verbatim>\<open>New\<close>, \<open>Chans\<close> counts the channels
  made so far, \<open>Slept\<close> adds up the time spent in \<^verbatim>\<open>time.Sleep\<close> and \<open>Closes\<close> counts how
  many times \<^verbatim>\<open>close(b.Done)\<close> has run.
\<close>

record 'f BaseBrowser =
  Mutex :: bool
  Path :: string
  Cmd :: cmd
  Ws :: "conn option"
  Id_base :: "32 word"
  Pending :: "string \<rightharpoonup> chan"
  Bindings :: "string \<rightharpoonup> 'f"
  Done :: bool
  Wg :: nat
  Handler :: handler
  Chans :: nat
  Slept :: int
  Closes :: nat

text \<open>\<^verbatim>\<open>Chrome\<close> and \<^verbatim>\<open>Firefox\<close> embed \<^verbatim>\<open>BaseBrowser\<close>; their own \<^verbatim>\<open>Id\<close> hides the embedded one.\<close>

record 'f Chrome = "'f BaseBrowser" +
  Id_chrome :: "32 word"
  mu_chrome :: bool

record 'f Firefox = "'f BaseBrowser" +
  Id_firefox :: "32 word"
  mu_firefox :: bool
  profile :: string

text \<open>
  What a call does: it returns a value in a new state, or it is suspended in a state,
  waiting for the lock, for a value on a channel or for the wait group, or it panics.
  A suspended call goes on only when another task releases what it waits for.
\<close>

datatype wait_on = OnLock | OnChan chan | OnWaitGroup

datatype ('s, 'a) outcome = Returns 's 'a | Waits 's wait_on | Panics

definition Lock :: "('f, 'z) BaseBrowser_scheme \<Rightarrow> ('f, 'z) BaseBrowser_scheme" where
  "Lock b = b\<lparr>Mutex := True\<rparr>"

definition Unlock :: "('f, 'z) BaseBrowser_scheme \<Rightarrow> ('f, 'z) BaseBrowser_scheme" where
  "Unlock b = b\<lparr>Mutex := False\<rparr>"

section \<open>Start and Bind\<close>

text \<open>\<^verbatim>\<open>BaseBrowser.Start\<close>; \<open>spawn\<close> is what \<^verbatim>\<open>b.Cmd.Start()\<close> would give.\<close>

definition Start ::
  "error + process \<Rightarrow> ('f, 'z) BaseBrowser_scheme
    \<Rightarrow> (('f, 'z) BaseBrowser_scheme, error option) outcome" where
  "Start spawn b =
     (if Mutex b then Waits b OnLock
      else let b = Lock b in
        if Process (Cmd b) \<noteq> None then Returns (Unlock b) None
        else (case spawn of
                Inl e \<Rightarrow> Returns (Unlock b) (Some (StartFailed e))
              | Inr p \<Rightarrow> Returns (Unlock (b\<lparr>Cmd := (Cmd b)\<lparr>Process := Some p\<rparr>\<rparr>)) None))"

text \<open>\<^verbatim>\<open>BaseBrowser.Bind\<close>.\<close>

definition Bind ::
  "string \<Rightarrow> 'f \<Rightarrow> ('f, 'z) BaseBrowser_scheme
    \<Rightarrow> (('f, 'z) BaseBrowser_scheme, error option) outcome" where
  "Bind name f b =
     (if Mutex b then Waits b OnLock
      else let b = Lock b in
        if Bindings b name \<noteq> None then Returns (Unlock b) (Some (BindingExists name))
        else Returns (Unlock (b\<lparr>Bindings := (Bindings b)(name \<mapsto> f)\<rparr>)) None)"

text \<open>\<^verbatim>\<open>BaseBrowser.Eval\<close> and \<^verbatim>\<open>BaseBrowser.Load\<close>, which the browsers override.\<close>

definition Eval_base ::
  "string \<Rightarrow> ('f, 'z) BaseBrowser_scheme
    \<Rightarrow> (('f, 'z) BaseBrowser_scheme, string \<times> string \<times> error option) outcome" where
  "Eval_base expr b = Returns b ('''', '''', Some EvalNotImplemented)"

definition Load_base ::
  "string \<Rightarrow> ('f, 'z) BaseBrowser_scheme
    \<Rightarrow> (('f, 'z) BaseBrowser_scheme, error option) outcome" where
  "Load_base url b = Returns b (Some LoadNotImplemented)"

section \<open>Firefox: Load and Eval\<close>

definition Load_firefox ::
  "string \<Rightarrow> 'f Firefox \<Rightarrow> ('f Firefox, error option) outcome" where
  "Load_firefox url f = Returns f None"

definition Eval_firefox ::
  "string \<Rightarrow> 'f Firefox \<Rightarrow> ('f Firefox, string \<times> string \<times> error option) outcome" where
  "Eval_firefox expr f = Returns f ('''', '''', None)"

section \<open>Establishing the connection\<close>

text \<open>
  What one attempt to connect meets: whether \<^verbatim>\<open>waitForPort\<close> found the port open before
  its deadline, the error of the \<^verbatim>\<open>http.Get\<close> on the listing (if any), the decoded listing
  (the \<^verbatim>\<open>webSocketDebuggerUrl\<close> of each target) or the decoding error, and what dialling
  a URL gives.
\<close>

record attempt =
  port_open :: bool
  get_error :: "error option"
  listing :: "error + string list"
  dial :: "string \<Rightarrow> error + conn"

text \<open>\<^verbatim>\<open>Chrome.connectWebSocket\<close>.\<close>

definition connectWebSocket_chrome ::
  "attempt \<Rightarrow> ('f, 'z) BaseBrowser_scheme \<Rightarrow> ('f, 'z) BaseBrowser_scheme \<times> error option" where
  "connectWebSocket_chrome att c =
     (if \<not> port_open att then (c, Some (PortNotOpen ''Chrome'' 9222))
      else case get_error att of
        Some e \<Rightarrow> (c, Some (GetFailed e))
      | None \<Rightarrow>
         (case listing att of
            Inl e \<Rightarrow> (c, Some (DecodeFailed e))
          | Inr targets \<Rightarrow>
             (case targets of
                [] \<Rightarrow> (c, Some NoTargets)
              | wsURL # _ \<Rightarrow>
                 (case dial att wsURL of
                    Inl e \<Rightarrow> (c, Some (DialFailed e))
                  | Inr ws \<Rightarrow> (c\<lparr>Ws := Some ws\<rparr>, None)))))"

text \<open>\<^verbatim>\<open>Firefox.connectWebSocket\<close>, which only waits for the port.\<close>

definition connectWebSocket_firefox ::
  "attempt \<Rightarrow> ('f, 'z) BaseBrowser_scheme \<Rightarrow> ('f, 'z) BaseBrowser_scheme \<times> error option" where
  "connectWebSocket_firefox att f =
     (if \<not> port_open att then (f, Some (PortNotOpen ''Firefox'' 9223)) else (f, None))"

text \<open>\<^verbatim>\<open>time.Sleep\<close>: a delay that is not positive returns at once.\<close>

definition Sleep :: "int \<Rightarrow> ('f, 'z) BaseBrowser_scheme \<Rightarrow> ('f, 'z) BaseBrowser_scheme" where
  "Sleep d b = b\<lparr>Slept := Slept b + max 0 d\<rparr>"

text \<open>
  The loop of \<^verbatim>\<open>connectWebSocketWithRetry\<close>, the same text in both browsers, from the
  iteration \<open>i\<close> on with \<open>err\<close> the error of the attempt before. \<open>env i\<close> is what attempt
  \<open>i\<close> (counted from 0) meets. The lines printed for each failure are left out.
\<close>

function retry_loop ::
  "(attempt \<Rightarrow> ('f, 'z) BaseBrowser_scheme \<Rightarrow> ('f, 'z) BaseBrowser_scheme \<times> error option)
    \<Rightarrow> (nat \<Rightarrow> attempt) \<Rightarrow> int \<Rightarrow> int \<Rightarrow> nat \<Rightarrow> error option
    \<Rightarrow> ('f, 'z) BaseBrowser_scheme \<Rightarrow> ('f, 'z) BaseBrowser_scheme \<times> error option" where
  "retry_loop connect env maxRetries delay i err b =
     (if int i < maxRetries then
        (case connect (env i) b of
           (b', None) \<Rightarrow> (b', None)
         | (b', Some e) \<Rightarrow> retry_loop connect env maxRetries delay (Suc i) (Some e) (Sleep delay b'))
      else (b, Some (RetriesExhausted maxRetries err)))"
  by pat_completeness auto
termination
  by (relation "measure (\<lambda>(connect, env, maxRetries, delay, i, err, b). nat (maxRetries - int i))") auto

declare retry_loop.simps [simp del]

definition connectWebSocketWithRetry_chrome ::
  "(nat \<Rightarrow> attempt) \<Rightarrow> int \<Rightarrow> int \<Rightarrow> ('f, 'z) BaseBrowser_scheme
    \<Rightarrow> ('f, 'z) BaseBrowser_scheme \<times> error option" where
  "connectWebSocketWithRetry_chrome env maxRetries delay c =
     retry_loop connectWebSocket_chrome env maxRetries delay 0 None c"

definition connectWebSocketWithRetry_firefox ::
  "(nat \<Rightarrow> attempt) \<Rightarrow> int \<Rightarrow> int \<Rightarrow> ('f, 'z) BaseBrowser_scheme
    \<Rightarrow> ('f, 'z) BaseBrowser_scheme \<times> error option" where
  "connectWebSocketWithRetry_firefox env maxRetries delay f =
     retry_loop connectWebSocket_firefox env maxRetries delay 0 None f"

section \<open>Decoding and printing the value of an evaluation\<close>



















section \<open>Chrome: Load and Eval\<close>

text \<open>
  \<^verbatim>\<open>websocket.JSON.Send\<close>: \<open>failure\<close> is the error the transport gives for this frame, if
  any; a closed connection always gives one.
\<close>

definition JSON_Send :: "error option \<Rightarrow> conn \<Rightarrow> request \<Rightarrow> conn \<times> error option" where
  "JSON_Send failure ws message =
     (if Closed ws then (ws, Some (External ''use of closed network connection''))
      else case failure of
        Some e \<Rightarrow> (ws, Some e)
      | None \<Rightarrow> (ws\<lparr>Written := Written ws @ [message]\<rparr>, None))"

text \<open>\<^verbatim>\<open>fmt.Sprintf("%d", id)\<close> on an \<^verbatim>\<open>int32\<close>.\<close>

definition idStr :: "32 word \<Rightarrow> string" where
  "idStr i = show_int (sint i)"

text \<open>The \<^verbatim>\<open>message\<close> maps that \<^verbatim>\<open>Load\<close> and \<^verbatim>\<open>Eval\<close> build.\<close>

definition navigate_message :: "'f Chrome \<Rightarrow> string \<Rightarrow> request" where
  "navigate_message c url =
     \<lparr>req_id = Id_chrome c, req_method = ''Page.navigate'', req_params = [(''url'', url)]\<rparr>"

definition evaluate_message :: "'f Chrome \<Rightarrow> string \<Rightarrow> request" where
  "evaluate_message c expr =
     \<lparr>req_id = Id_chrome c, req_method = ''Runtime.evaluate'',
      req_params = [(''expression'', expr)]\<rparr>"

text \<open>
  \<^verbatim>\<open>Chrome.Load\<close> up to the receive on the response channel. The unlock is deferred, so
  the lock is released where the function returns and nowhere else.
\<close>

definition Load_chrome ::
  "error option \<Rightarrow> string \<Rightarrow> 'f Chrome \<Rightarrow> ('f Chrome, error option) outcome" where
  "Load_chrome failure url c =
     (if Mutex c then Waits c OnLock
      else let c = Lock c in
        case Ws c of
          None \<Rightarrow> Returns (Unlock c) (Some NotConnected)
        | Some ws \<Rightarrow>
           (let message = navigate_message c url;
                key = idStr (Id_chrome c);
                responseChan = Chan (Chans c);
                c = c\<lparr>Chans := Suc (Chans c)\<rparr>;
                c = c\<lparr>Pending := (Pending c)(key \<mapsto> responseChan)\<rparr>;
                c = c\<lparr>Id_chrome := Id_chrome c + 1\<rparr>
            in case JSON_Send failure ws message of
                 (ws', Some e) \<Rightarrow>
                   Returns (Unlock (c\<lparr>Ws := Some ws', Pending := (Pending c)(key := None)\<rparr>))
                     (Some (SendFailed e))
               | (ws', None) \<Rightarrow> Waits (c\<lparr>Ws := Some ws'\<rparr>) (OnChan responseChan)))"

text \<open>\<^verbatim>\<open>Chrome.Load\<close> from the receive on: \<open>v\<close> is the value received.\<close>

definition Load_chrome_received ::
  "dyn \<Rightarrow> 'f Chrome \<Rightarrow> ('f Chrome, error option) outcome" where
  "Load_chrome_received v c =
     (case v of
        DynOther \<Rightarrow> Returns (Unlock c) (Some UnexpectedResponseType)
      | DynResult res \<Rightarrow>
         (case Error res of
            Some e \<Rightarrow> Returns (Unlock c) (Some (NavigationError (Message e)))
          | None \<Rightarrow> Returns (Unlock c) None))"

text \<open>\<^verbatim>\<open>Chrome.Eval\<close> up to the receive on the response channel.\<close>

definition Eval_chrome ::
  "error option \<Rightarrow> string \<Rightarrow> 'f Chrome
    \<Rightarrow> ('f Chrome, string \<times> string \<times> error option) outcome" where
  "Eval_chrome failure expr c =
     (if Mutex c then Waits c OnLock
      else let c = Lock c in
        case Ws c of
          None \<Rightarrow> Returns (Unlock c) ([], [], Some NotConnected)
        | Some ws \<Rightarrow>
           (let message = evaluate_message c expr;
                key = idStr (Id_chrome c);
                responseChan = Chan (Chans c);
                c = c\<lparr>Chans := Suc (Chans c)\<rparr>;
                c = c\<lparr>Pending := (Pending c)(key \<mapsto> responseChan)\<rparr>;
                c = c\<lparr>Id_chrome := Id_chrome c + 1\<rparr>
            in case JSON_Send failure ws message of
                 (ws', Some e) \<Rightarrow>
                   Returns (Unlock (c\<lparr>Ws := Some ws', Pending := (Pending c)(key := None)\<rparr>))
                     ([], [], Some (SendFailed e))
               | (ws', None) \<Rightarrow> Waits (Unlock (c\<lparr>Ws := Some ws'\<rparr>)) (OnChan responseChan)))"


section \<open>The response handler\<close>

text \<open>
  What \<^verbatim>\<open>websocket.JSON.Receive\<close> does on an open connection: it stays blocked, it fails,
  or it decodes a frame.
\<close>

datatype recv = RecvBlocks | RecvError error | RecvFrame result

text \<open>
  One move of the goroutine running \<^verbatim>\<open>handleResponse\<close> (the same text in both browsers),
  from where it stands; \<open>None\<close> when it cannot move. At the \<^verbatim>\<open>select\<close> it leaves as soon as
  \<^verbatim>\<open>Done\<close> is closed, and the deferred \<^verbatim>\<open>Wg.Done()\<close> runs (a counter below zero panics).
  A receive on a closed connection fails, on a nil connection it panics, and after a
  failure the loop goes round. With a frame it needs the lock; holding it, it sends
  on the channel registered under the id of the frame, if there is one.
\<close>

definition handler_step ::
  "recv \<Rightarrow> ('f, 'z) BaseBrowser_scheme \<Rightarrow> ('f, 'z) BaseBrowser_scheme option" where
  "handler_step incoming b =
     (case Handler b of
        NotStarted \<Rightarrow> None
      | Exited \<Rightarrow> None
      | Crashed \<Rightarrow> None
      | AtSelect \<Rightarrow>
          if Done b then
            (if Wg b = 0 then Some (b\<lparr>Handler := Crashed\<rparr>)
             else Some (b\<lparr>Wg := Wg b - 1, Handler := Exited\<rparr>))
          else Some (b\<lparr>Handler := Receiving\<rparr>)
      | Receiving \<Rightarrow>
          (case Ws b of
             None \<Rightarrow> Some (b\<lparr>Handler := Crashed\<rparr>)
           | Some ws \<Rightarrow>
               if Closed ws then Some (b\<lparr>Handler := AtSelect\<rparr>)
               else (case incoming of
                       RecvBlocks \<Rightarrow> None
                     | RecvError e \<Rightarrow> Some (b\<lparr>Handler := AtSelect\<rparr>)
                     | RecvFrame res \<Rightarrow> Some (b\<lparr>Handler := AtLock res\<rparr>)))
      | AtLock res \<Rightarrow>
          if Mutex b then None
          else (case Pending b (idStr (ID res)) of
                  Some ch \<Rightarrow> Some ((Lock b)\<lparr>Handler := Sending ch res\<rparr>)
                | None \<Rightarrow> Some ((Unlock (Lock b))\<lparr>Handler := AtSelect\<rparr>))
      | Sending ch res \<Rightarrow> None)"

text \<open>
  The send \<^verbatim>\<open>ch <- res\<close> goes through when the caller waiting on the channel takes the
  value; the handler then deletes the entry, unlocks and goes round. The result is
  the new state with the channel and the value handed over.
\<close>

definition handler_send ::
  "('f, 'z) BaseBrowser_scheme \<Rightarrow> (('f, 'z) BaseBrowser_scheme \<times> chan \<times> dyn) option" where
  "handler_send b =
     (case Handler b of
        Sending ch res \<Rightarrow>
          Some (Unlock (b\<lparr>Pending := (Pending b)(idStr (ID res) := None), Handler := AtSelect\<rparr>),
                ch, DynResult res)
      | _ \<Rightarrow> None)"

section \<open>Kill\<close>

text \<open>
  \<^verbatim>\<open>Wg.Wait()\<close>: it returns once the counter is zero. While the caller waits the handler
  moves on; if the handler gets stuck, or never leaves, the caller waits for ever and
  there is no result. \<open>incoming\<close> is what the receive the handler may be blocked in does,
  should the connection still be open.
\<close>

partial_function (option) Wg_Wait ::
  "recv \<Rightarrow> ('f, 'z) BaseBrowser_scheme \<Rightarrow> ('f, 'z) BaseBrowser_scheme option" where
  "Wg_Wait incoming b =
     (if Wg b = 0 then Some b
      else case handler_step incoming b of
        None \<Rightarrow> None
      | Some b' \<Rightarrow> Wg_Wait incoming b')"

text \<open>\<^verbatim>\<open>close(b.Done)\<close>; closing a closed channel panics.\<close>

definition close_Done ::
  "('f, 'z) BaseBrowser_scheme \<Rightarrow> ('f, 'z) BaseBrowser_scheme option" where
  "close_Done b = (if Done b then None else Some (b\<lparr>Done := True, Closes := Suc (Closes b)\<rparr>))"

text \<open>
  What a call of \<^verbatim>\<open>Kill\<close> meets outside the session: the error of closing an open
  connection, the receive of the handler, the error of killing a running process, the
  same for the signal sent by \<^verbatim>\<open>isProcessRunning\<close>, whether \<^verbatim>\<open>os.FindProcess\<close> finds the
  process, and the error of signalling a process that has exited (none where the
  system still accepts the signal).
\<close>

record kill_env =
  close_error :: "error option"
  incoming :: recv
  kill_error :: "error option"
  find_ok :: bool
  probe_error :: "error option"
  exited_error :: "error option"

text \<open>\<^verbatim>\<open>Ws.Close()\<close>: closing a connection twice is an error.\<close>

definition Ws_Close :: "error option \<Rightarrow> conn \<Rightarrow> conn \<times> error option" where
  "Ws_Close failure ws =
     (if Closed ws then (ws, Some (External ''use of closed network connection''))
      else case failure of
        Some e \<Rightarrow> (ws, Some e)
      | None \<Rightarrow> (ws\<lparr>Closed := True\<rparr>, None))"

text \<open>\<^verbatim>\<open>Process.Signal(os.Kill)\<close>, which is also what \<^verbatim>\<open>Process.Kill()\<close> does: a running
  process ends unless the system refuses.\<close>

definition Signal_Kill :: "error option \<Rightarrow> error option \<Rightarrow> process \<Rightarrow> process \<times> error option" where
  "Signal_Kill running_error exited_err p =
     (if Alive p then
        (case running_error of None \<Rightarrow> (p\<lparr>Alive := False\<rparr>, None) | Some e \<Rightarrow> (p, Some e))
      else (p, exited_err))"

text \<open>\<^verbatim>\<open>isProcessRunning\<close>; the process is the one the pid names.\<close>

definition isProcessRunning :: "kill_env \<Rightarrow> process \<Rightarrow> process \<times> bool" where
  "isProcessRunning env p =
     (if \<not> find_ok env then (p, False)
      else case Signal_Kill (probe_error env) (exited_error env) p of
        (p', Some e) \<Rightarrow> (p', False)
      | (p', None) \<Rightarrow> (p', True))"

definition set_Process ::
  "process \<Rightarrow> ('f, 'z) BaseBrowser_scheme \<Rightarrow> ('f, 'z) BaseBrowser_scheme" where
  "set_Process p b = b\<lparr>Cmd := (Cmd b)\<lparr>Process := Some p\<rparr>\<rparr>"

text \<open>\<^verbatim>\<open>BaseBrowser.Kill\<close>. The error of closing the connection is only printed.\<close>

definition Kill ::
  "kill_env \<Rightarrow> ('f, 'z) BaseBrowser_scheme
    \<Rightarrow> (('f, 'z) BaseBrowser_scheme, error option) outcome" where
  "Kill env b =
     (if Mutex b then Waits b OnLock
      else let b = Lock b in
        case (if Done b then Some b else close_Done b) of
          None \<Rightarrow> Panics
        | Some b \<Rightarrow>
           (let b = (case Ws b of
                       None \<Rightarrow> b
                     | Some ws \<Rightarrow> b\<lparr>Ws := Some (fst (Ws_Close (close_error env) ws))\<rparr>)
            in case Wg_Wait (incoming env) b of
                 None \<Rightarrow> Waits b OnWaitGroup
               | Some b \<Rightarrow>
                  (case Process (Cmd b) of
                     None \<Rightarrow> Returns (Unlock b) None
                   | Some p \<Rightarrow>
                      (case Signal_Kill (kill_error env) (exited_error env) p of
                         (p, None) \<Rightarrow> Returns (Unlock (set_Process p b)) None
                       | (p, Some err) \<Rightarrow>
                          (case isProcessRunning env p of
                             (p, running) \<Rightarrow>
                               if \<not> running then Returns (Unlock (set_Process p b)) None
                               else Returns (Unlock (set_Process p b)) (Some (KillFailed err)))))))"

text \<open>\<^verbatim>\<open>Firefox.Kill\<close>; \<open>remove_error\<close> is the error of \<^verbatim>\<open>os.RemoveAll\<close>, if any.\<close>

definition Kill_firefox ::
  "kill_env \<Rightarrow> error option \<Rightarrow> 'f Firefox \<Rightarrow> ('f Firefox, error option) outcome" where
  "Kill_firefox env remove_error f =
     (case Kill env f of
        Returns f (Some err) \<Rightarrow> Returns f (Some err)
      | Returns f None \<Rightarrow>
         (case remove_error of
            Some err \<Rightarrow> Returns f (Some (ProfileDeleteFailed err))
          | None \<Rightarrow> Returns f None)
      | Waits f w \<Rightarrow> Waits f w
      | Panics \<Rightarrow> Panics)"

section \<open>Creating a Chrome session\<close>

definition chrome_flags :: "string list" where
  "chrome_flags =
     [''--remote-debugging-port=9222'',
      ''--remote-allow-origins=*'',
      ''--no-first-run'',
      ''--no-default-browser-check'',
      ''--disable-default-apps'',
      ''--disable-extensions'',
      ''--disable-popup-blocking'',
      ''--disable-infobars'',
      ''--disable-session-crashed-bubble'',
      ''--disable-features=TranslateUI'',
      ''--disable-features=HoverCard'',
      ''--app=data:text/html,<!DOCTYPE html><html><head><title>about:blank</title></head><body></body></html>'']"

text \<open>The struct that \<^verbatim>\<open>chrome.New\<close> builds, with the command of \<^verbatim>\<open>exec.Command\<close>.\<close>

definition chrome_literal :: "string \<Rightarrow> string list \<Rightarrow> 'f Chrome" where
  "chrome_literal path args =
     \<lparr>Mutex = False, Path = path,
      Cmd = \<lparr>CmdPath = path, Args = args @ chrome_flags, Process = None\<rparr>,
      Ws = None, Id_base = 0, Pending = Map.empty, Bindings = Map.empty,
      Done = False, Wg = 0, Handler = NotStarted, Chans = 0, Slept = 0, Closes = 0,
      Id_chrome = 1, mu_chrome = False\<rparr>"

text \<open>
  \<^verbatim>\<open>chrome.New\<close>. \<open>found\<close> is what \<^verbatim>\<open>FindPath\<close> gives; a second is 1000000000 nanoseconds.
  On success the wait group counts the handler before the goroutine starts.
\<close>

definition New_chrome ::
  "error + string \<Rightarrow> string list \<Rightarrow> error + process \<Rightarrow> (nat \<Rightarrow> attempt) \<Rightarrow> kill_env
    \<Rightarrow> (unit, error + 'f Chrome) outcome" where
  "New_chrome found args spawn env kenv =
     (case found of
        Inl err \<Rightarrow> Returns () (Inl err)
      | Inr path \<Rightarrow>
         (case Start spawn (chrome_literal path args) of
            Waits c w \<Rightarrow> Waits () w
          | Panics \<Rightarrow> Panics
          | Returns c (Some err) \<Rightarrow> Returns () (Inl err)
          | Returns c None \<Rightarrow>
             (case connectWebSocketWithRetry_chrome env 10 1000000000 c of
                (c, Some err) \<Rightarrow>
                  (case Kill kenv c of
                     Waits c w \<Rightarrow> Waits () w
                   | Panics \<Rightarrow> Panics
                   | Returns c r \<Rightarrow> Returns () (Inl err))
              | (c, None) \<Rightarrow> Returns () (Inr (c\<lparr>Wg := Wg c + 1, Handler := AtSelect\<rparr>)))))"

section \<open>Creating a Firefox session\<close>

text \<open>The struct that \<^verbatim>\<open>firefox.New\<close> builds, with the command of \<^verbatim>\<open>exec.Command\<close>; the
  flags end with the profile directory and the page to open.\<close>

definition firefox_flags :: "string \<Rightarrow> string list" where
  "firefox_flags profileDir =
     [''--remote-debugging-port=9223'',
      ''--no-remote'',
      ''--profile'', profileDir,
      ''--new-instance'',
      ''--start-debugger-server'',
      ''--no-extensions'',
      ''--disable-popup-blocking'',
      ''--disable-infobars'',
      ''about:blank'']"

definition firefox_literal :: "string \<Rightarrow> string \<Rightarrow> string list \<Rightarrow> 'f Firefox" where
  "firefox_literal path profileDir args =
     \<lparr>Mutex = False, Path = path,
      Cmd = \<lparr>CmdPath = path, Args = args @ firefox_flags profileDir, Process = None\<rparr>,
      Ws = None, Id_base = 0, Pending = Map.empty, Bindings = Map.empty,
      Done = False, Wg = 0, Handler = NotStarted, Chans = 0, Slept = 0, Closes = 0,
      Id_firefox = 1, mu_firefox = False, profile = profileDir\<rparr>"

section \<open>Predicates on sessions\<close>

text \<open>The handler goroutine has been started and has neither returned nor crashed.\<close>

definition handler_running :: "('f, 'z) BaseBrowser_scheme \<Rightarrow> bool" where
  "handler_running b =
     (case Handler b of
        AtSelect \<Rightarrow> True
      | Receiving \<Rightarrow> True
      | AtLock res \<Rightarrow> True
      | Sending ch res \<Rightarrow> True
      | _ \<Rightarrow> False)"

text \<open>There is no process handle, or the process it names has ended.\<close>

definition process_gone :: "('f, 'z) BaseBrowser_scheme \<Rightarrow> bool" where
  "process_gone b = (case Process (Cmd b) of None \<Rightarrow> True | Some p \<Rightarrow> \<not> Alive p)"

section \<open>Sample sessions\<close>

text \<open>
  A run of \<^verbatim>\<open>chrome.New\<close>: the browser starts, the port is closed for the first two
  attempts and the third attempt connects. Binding functions are named by numbers.
\<close>

definition sample_process :: process where
  "sample_process = \<lparr>Pid = 4242, Alive = True\<rparr>"

definition sample_conn :: conn where
  "sample_conn = \<lparr>Closed = False, Written = []\<rparr>"

definition attempt_refused :: attempt where
  "attempt_refused =
     \<lparr>port_open = False, get_error = None, listing = Inr [],
      dial = (\<lambda>url. Inl (External ''connection refused''))\<rparr>"

definition attempt_ready :: attempt where
  "attempt_ready =
     \<lparr>port_open = True, get_error = None,
      listing = Inr [''ws://localhost:9222/devtools/page/1''],
      dial = (\<lambda>url. Inr sample_conn)\<rparr>"

definition sample_attempts :: "nat \<Rightarrow> attempt" where
  "sample_attempts i = (if i < 2 then attempt_refused else attempt_ready)"

definition sample_kill_env :: kill_env where
  "sample_kill_env =
     \<lparr>close_error = None, incoming = RecvBlocks, kill_error = None, find_ok = True,
      probe_error = None, exited_error = Some (External ''os: process already finished'')\<rparr>"

text \<open>The session that run of \<^verbatim>\<open>chrome.New\<close> returns.\<close>

definition connected_chrome :: "nat Chrome" where
  "connected_chrome =
     \<lparr>Mutex = False, Path = ''chrome.exe'',
      Cmd = \<lparr>CmdPath = ''chrome.exe'', Args = chrome_flags, Process = Some sample_process\<rparr>,
      Ws = Some sample_conn, Id_base = 0, Pending = Map.empty, Bindings = Map.empty,
      Done = False, Wg = 1, Handler = AtSelect, Chans = 0, Slept = 2000000000, Closes = 0,
      Id_chrome = 1, mu_chrome = False\<rparr>"

text \<open>A Firefox session as \<^verbatim>\<open>firefox.New\<close> builds it; no transport is ever stored in it.\<close>

definition sample_firefox :: "nat Firefox" where
  "sample_firefox = firefox_literal ''firefox.exe'' ''/tmp/firefox_profile_1'' []"

text \<open>A reply to the request with id 1 that carries neither a result nor an error.\<close>

definition sample_reply :: result where
  "sample_reply = \<lparr>ID = 1, Result = None, Error = None\<rparr>"

section \<open>The phases of Kill\<close>

text \<open>
  \<^verbatim>\<open>Kill\<close> in three parts, for the proofs: the session as \<^verbatim>\<open>Kill\<close> has it when it reaches
  \<^verbatim>\<open>Wg.Wait()\<close> (locked, stop signalled, transport closed if there is one), and what it
  does once the wait is over.
\<close>

definition before_Wait ::
  "kill_env \<Rightarrow> ('f, 'z) BaseBrowser_scheme \<Rightarrow> ('f, 'z) BaseBrowser_scheme" where
  "before_Wait env b =
     (let b = Lock b;
          b = (if Done b then b else b\<lparr>Done := True, Closes := Suc (Closes b)\<rparr>)
      in case Ws b of
           None \<Rightarrow> b
         | Some ws \<Rightarrow> b\<lparr>Ws := Some (fst (Ws_Close (close_error env) ws))\<rparr>)"

definition after_Wait ::
  "kill_env \<Rightarrow> ('f, 'z) BaseBrowser_scheme
    \<Rightarrow> (('f, 'z) BaseBrowser_scheme, error option) outcome" where
  "after_Wait env b =
     (case Process (Cmd b) of
        None \<Rightarrow> Returns (Unlock b) None
      | Some p \<Rightarrow>
         (case Signal_Kill (kill_error env) (exited_error env) p of
            (p, None) \<Rightarrow> Returns (Unlock (set_Process p b)) None
          | (p, Some err) \<Rightarrow>
             (case isProcessRunning env p of
                (p, running) \<Rightarrow>
                  if \<not> running then Returns (Unlock (set_Process p b)) None
                  else Returns (Unlock (set_Process p b)) (Some (KillFailed err)))))"

section \<open>Sample sessions with a request under way\<close>

text \<open>The sample session once \<^verbatim>\<open>Eval\<close> has sent its request and waits, the handler being
  blocked in its receive.\<close>

definition evaluating_chrome :: "nat Chrome" where
  "evaluating_chrome =
     connected_chrome
       \<lparr>Ws := Some \<lparr>Closed = False,
                    Written = [evaluate_message connected_chrome ''document.title'']\<rparr>,
        Pending := [''1'' \<mapsto> Chan 0], Handler := Receiving, Chans := 1, Id_chrome := 2\<rparr>"

text \<open>The same for \<^verbatim>\<open>Load\<close>, which still holds the lock.\<close>

definition loading_chrome :: "nat Chrome" where
  "loading_chrome =
     connected_chrome
       \<lparr>Mutex := True,
        Ws := Some \<lparr>Closed = False,
                    Written = [navigate_message connected_chrome ''https://new.grng.cc'']\<rparr>,
        Pending := [''1'' \<mapsto> Chan 0], Handler := Receiving, Chans := 1, Id_chrome := 2\<rparr>"

text \<open>The session \<^verbatim>\<open>Kill\<close> leaves when it is called while \<^verbatim>\<open>Eval\<close> waits.\<close>

definition killed_chrome :: "nat Chrome" where
  "killed_chrome =
     evaluating_chrome
       \<lparr>Cmd := \<lparr>CmdPath = ''chrome.exe'', Args = chrome_flags,
                 Process = Some \<lparr>Pid = 4242, Alive = False\<rparr>\<rparr>,
        Ws := Some \<lparr>Closed = True,
                    Written = [evaluate_message connected_chrome ''document.title'']\<rparr>,
        Done := True, Wg := 0, Handler := Exited, Closes := 1\<rparr>"

section \<open>Properties of Start, Bind and the Firefox commands\<close>

lemma Unlock_Lock: "\<not> Mutex b \<Longrightarrow> Unlock (Lock b) = b"
  by (simp add: Unlock_def Lock_def)

text \<open>The sample run of \<^verbatim>\<open>chrome.New\<close> does return the sample session.\<close>

lemma New_chrome_sample:
  "New_chrome (Inr ''chrome.exe'') [] (Inr sample_process) sample_attempts sample_kill_env
     = Returns () (Inr connected_chrome)"
  by (simp add: New_chrome_def Start_def chrome_literal_def Lock_def Unlock_def Let_def
      connectWebSocketWithRetry_chrome_def retry_loop.simps connectWebSocket_chrome_def
      sample_attempts_def attempt_refused_def attempt_ready_def Sleep_def connected_chrome_def)

text \<open>
  C8. \<^verbatim>\<open>Start\<close> is idempotent: when the process handle already exists, a call made with
  the lock free returns nil and leaves the whole session, the process handle included,
  as it was, whatever spawning a process would have given; so nothing is spawned.
\<close>

theorem Start_idempotent:
  "\<not> Mutex b \<Longrightarrow> Process (Cmd b) \<noteq> None \<Longrightarrow> Start spawn b = Returns b None"
  by (simp add: Start_def Let_def Unlock_def Lock_def)

theorem Start_idempotent_witness:
  "\<not> Mutex connected_chrome \<and> Process (Cmd connected_chrome) \<noteq> None
   \<and> Start (Inr \<lparr>Pid = 7, Alive = True\<rparr>) connected_chrome = Returns connected_chrome None"
proof -
  have m: "\<not> Mutex connected_chrome" by (simp add: connected_chrome_def)
  have p: "Process (Cmd connected_chrome) \<noteq> None" by (simp add: connected_chrome_def)
  show ?thesis using m p Start_idempotent [OF m p] by simp
qed

text \<open>
  C9. Firefox's \<^verbatim>\<open>Load\<close> returns nil for every url and its \<^verbatim>\<open>Eval\<close> returns two empty
  strings and nil for every expression, in every state of the session, which they
  leave as it is.
\<close>

theorem Firefox_Load_Eval_stub:
  "Load_firefox url f = Returns f None \<and> Eval_firefox expr f = Returns f ([], [], None)"
  by (simp add: Load_firefox_def Eval_firefox_def)

text \<open>
  C10. With the lock free, \<^verbatim>\<open>Bind\<close> returns an error exactly when the name is already
  bound, and then changes nothing; otherwise it stores the function under the name and
  returns nil. Once a function is stored under a name, a later \<^verbatim>\<open>Bind\<close> of that name
  fails and leaves the session, the stored function included, as it is.
\<close>

theorem Bind_spec:
  "\<not> Mutex b \<Longrightarrow>
     Bind name f b =
       (if Bindings b name = None then Returns (b\<lparr>Bindings := (Bindings b)(name \<mapsto> f)\<rparr>) None
        else Returns b (Some (BindingExists name)))
     \<and> Bind name g (b\<lparr>Bindings := (Bindings b)(name \<mapsto> f)\<rparr>)
         = Returns (b\<lparr>Bindings := (Bindings b)(name \<mapsto> f)\<rparr>) (Some (BindingExists name))"
  by (simp add: Bind_def Let_def Unlock_def Lock_def)

theorem Bind_spec_witness:
  "\<not> Mutex connected_chrome
   \<and> Bind ''ready'' 1 connected_chrome
       = Returns (connected_chrome\<lparr>Bindings := [''ready'' \<mapsto> 1]\<rparr>) None
   \<and> Bind ''ready'' 2 (connected_chrome\<lparr>Bindings := [''ready'' \<mapsto> 1]\<rparr>)
       = Returns (connected_chrome\<lparr>Bindings := [''ready'' \<mapsto> 1]\<rparr>) (Some (BindingExists ''ready''))"
proof -
  have m: "\<not> Mutex connected_chrome" by (simp add: connected_chrome_def)
  have b: "Bindings connected_chrome = Map.empty" by (simp add: connected_chrome_def)
  show ?thesis using m Bind_spec [OF m, of "''ready''" 1 2] by (simp add: b)
qed

section \<open>Establishing the connection: properties\<close>

lemma retry_loop_succeeds:
  assumes "i \<le> k" and "int k < N"
    and "\<forall>j. i \<le> j \<and> j < k \<longrightarrow> (\<forall>b. snd (connect (env j) b) \<noteq> None)"
    and "\<forall>b. snd (connect (env k) b) = None"
  shows "snd (retry_loop connect env N d i err b) = None"
  using assms
proof (induction "k - i" arbitrary: i err b)
  case 0
  then have ik: "i = k" by simp
  obtain b' where "connect (env k) b = (b', None)"
    using 0(5) by (metis prod.collapse)
  then show ?case using 0(3) ik
    by (simp add: retry_loop.simps)
next
  case (Suc n)
  then have lt: "i < k" by simp
  then have "snd (connect (env i) b) \<noteq> None" using Suc(5) by simp
  then obtain b' e where c: "connect (env i) b = (b', Some e)"
    by (metis prod.collapse not_None_eq)
  have "snd (retry_loop connect env N d (Suc i) (Some e) (Sleep d b')) = None"
  proof (rule Suc(1))
    show "n = k - Suc i" using Suc(2) by simp
    show "Suc i \<le> k" using lt by simp
    show "int k < N" by (rule Suc(4))
    show "\<forall>j. Suc i \<le> j \<and> j < k \<longrightarrow> (\<forall>b. snd (connect (env j) b) \<noteq> None)"
      using Suc(5) by simp
    show "\<forall>b. snd (connect (env k) b) = None" by (rule Suc(6))
  qed
  moreover have "int i < N" using lt Suc(4) by simp
  ultimately show ?case using c
    by (simp add: retry_loop.simps [of connect env N d i])
qed

lemma retry_loop_exhausted:
  assumes "int i < N"
    and "\<forall>j. i \<le> j \<and> int j < N \<longrightarrow> (\<forall>b. snd (connect (env j) b) = Some (e j))"
  shows "snd (retry_loop connect env N d i err b) = Some (RetriesExhausted N (Some (e (nat N - 1))))"
  using assms
proof (induction "nat N - Suc i" arbitrary: i err b)
  case 0
  then have stop_at: "Suc i = nat N" by simp
  have "snd (connect (env i) b) = Some (e i)" using 0(2,3) by simp
  then obtain b' where c: "connect (env i) b = (b', Some (e i))"
    by (metis prod.collapse)
  have stop: "\<not> int (Suc i) < N" using stop_at by simp
  have e: "e i = e (nat N - 1)" using stop_at by (metis diff_Suc_1)
  have "retry_loop connect env N d (Suc i) (Some (e i)) (Sleep d b')
        = (Sleep d b', Some (RetriesExhausted N (Some (e i))))"
    using stop by (simp add: retry_loop.simps [of connect env N d "Suc i"])
  then have "retry_loop connect env N d i err b = (Sleep d b', Some (RetriesExhausted N (Some (e i))))"
    using c 0(2) by (simp add: retry_loop.simps [of connect env N d i])
  then show ?case using e by simp
next
  case (Suc n)
  have "snd (connect (env i) b) = Some (e i)" using Suc(3,4) by simp
  then obtain b' where c: "connect (env i) b = (b', Some (e i))"
    by (metis prod.collapse)
  have "snd (retry_loop connect env N d (Suc i) (Some (e i)) (Sleep d b'))
        = Some (RetriesExhausted N (Some (e (nat N - 1))))"
  proof (rule Suc(1))
    show "n = nat N - Suc (Suc i)" using Suc(2) by simp
    show "int (Suc i) < N" using Suc(2) by simp
    show "\<forall>j. Suc i \<le> j \<and> int j < N \<longrightarrow> (\<forall>b. snd (connect (env j) b) = Some (e j))"
      using Suc(4) by simp
  qed
  then show ?case using c Suc(3)
    by (simp add: retry_loop.simps [of connect env N d i])
qed

text \<open>
  C6. For Chrome and for Firefox alike, with \<open>N\<close> the attempt count: if the attempts
  before attempt \<open>k\<close> (counted from 0) fail, attempt \<open>k\<close> succeeds and \<open>k < N\<close>, then
  \<^verbatim>\<open>connectWebSocketWithRetry\<close> returns nil. If \<open>N\<close> is at least one and all \<open>N\<close> attempts fail,
  attempt \<open>j\<close> with the error \<open>e j\<close>, it returns one error, whose text is the fixed
  prefix, the decimal \<open>N\<close>, and the text of the error of the last attempt.
\<close>

theorem connectWebSocketWithRetry_spec:
  "(int k < N \<longrightarrow>
      (\<forall>j<k. \<forall>b::('f, 'z) BaseBrowser_scheme. snd (connectWebSocket_chrome (env j) b) \<noteq> None) \<longrightarrow>
      (\<forall>b::('f, 'z) BaseBrowser_scheme. snd (connectWebSocket_chrome (env k) b) = None) \<longrightarrow>
      snd (connectWebSocketWithRetry_chrome env N d (c::('f, 'z) BaseBrowser_scheme)) = None)
   \<and> (0 < N \<longrightarrow>
      (\<forall>j. int j < N \<longrightarrow>
         (\<forall>b::('f, 'z) BaseBrowser_scheme. snd (connectWebSocket_chrome (env j) b) = Some (e j))) \<longrightarrow>
      (\<exists>r. snd (connectWebSocketWithRetry_chrome env N d c) = Some r
         \<and> r = RetriesExhausted N (Some (e (nat N - 1)))
         \<and> error_text r = ''failed to connect to WebSocket after '' @ show_int N
              @ '' attempts: '' @ error_text (e (nat N - 1))))
   \<and> (int k < N \<longrightarrow>
      (\<forall>j<k. \<forall>b::('g, 'y) BaseBrowser_scheme. snd (connectWebSocket_firefox (env j) b) \<noteq> None) \<longrightarrow>
      (\<forall>b::('g, 'y) BaseBrowser_scheme. snd (connectWebSocket_firefox (env k) b) = None) \<longrightarrow>
      snd (connectWebSocketWithRetry_firefox env N d (f::('g, 'y) BaseBrowser_scheme)) = None)
   \<and> (0 < N \<longrightarrow>
      (\<forall>j. int j < N \<longrightarrow>
         (\<forall>b::('g, 'y) BaseBrowser_scheme. snd (connectWebSocket_firefox (env j) b) = Some (e j))) \<longrightarrow>
      (\<exists>r. snd (connectWebSocketWithRetry_firefox env N d f) = Some r
         \<and> r = RetriesExhausted N (Some (e (nat N - 1)))
         \<and> error_text r = ''failed to connect to WebSocket after '' @ show_int N
              @ '' attempts: '' @ error_text (e (nat N - 1))))"
proof (intro conjI impI)
  assume "int k < N"
    and "\<forall>j<k. \<forall>b::('f, 'z) BaseBrowser_scheme. snd (connectWebSocket_chrome (env j) b) \<noteq> None"
    and "\<forall>b::('f, 'z) BaseBrowser_scheme. snd (connectWebSocket_chrome (env k) b) = None"
  then show "snd (connectWebSocketWithRetry_chrome env N d c) = None"
    unfolding connectWebSocketWithRetry_chrome_def
    by (intro retry_loop_succeeds [where k = k]) simp_all
next
  assume "0 < N"
    and "\<forall>j. int j < N \<longrightarrow>
           (\<forall>b::('f, 'z) BaseBrowser_scheme. snd (connectWebSocket_chrome (env j) b) = Some (e j))"
  then have "snd (connectWebSocketWithRetry_chrome env N d c)
             = Some (RetriesExhausted N (Some (e (nat N - 1))))"
    unfolding connectWebSocketWithRetry_chrome_def
    by (intro retry_loop_exhausted) simp_all
  then show "\<exists>r. snd (connectWebSocketWithRetry_chrome env N d c) = Some r
         \<and> r = RetriesExhausted N (Some (e (nat N - 1)))
         \<and> error_text r = ''failed to connect to WebSocket after '' @ show_int N
              @ '' attempts: '' @ error_text (e (nat N - 1))"
    by simp
next
  assume "int k < N"
    and "\<forall>j<k. \<forall>b::('g, 'y) BaseBrowser_scheme. snd (connectWebSocket_firefox (env j) b) \<noteq> None"
    and "\<forall>b::('g, 'y) BaseBrowser_scheme. snd (connectWebSocket_firefox (env k) b) = None"
  then show "snd (connectWebSocketWithRetry_firefox env N d f) = None"
    unfolding connectWebSocketWithRetry_firefox_def
    by (intro retry_loop_succeeds [where k = k]) simp_all
next
  assume "0 < N"
    and "\<forall>j. int j < N \<longrightarrow>
           (\<forall>b::('g, 'y) BaseBrowser_scheme. snd (connectWebSocket_firefox (env j) b) = Some (e j))"
  then have "snd (connectWebSocketWithRetry_firefox env N d f)
             = Some (RetriesExhausted N (Some (e (nat N - 1))))"
    unfolding connectWebSocketWithRetry_firefox_def
    by (intro retry_loop_exhausted) simp_all
  then show "\<exists>r. snd (connectWebSocketWithRetry_firefox env N d f) = Some r
         \<and> r = RetriesExhausted N (Some (e (nat N - 1)))
         \<and> error_text r = ''failed to connect to WebSocket after '' @ show_int N
              @ '' attempts: '' @ error_text (e (nat N - 1))"
    by simp
qed

theorem connectWebSocketWithRetry_spec_witness:
  "snd (connectWebSocketWithRetry_chrome sample_attempts 10 1000000000
          (chrome_literal ''chrome.exe'' [] :: nat Chrome)) = None
   \<and> map_option error_text
         (snd (connectWebSocketWithRetry_chrome (\<lambda>i. attempt_refused) 3 1000000000
                 (chrome_literal ''chrome.exe'' [] :: nat Chrome)))
       = Some ''failed to connect to WebSocket after 3 attempts: Chrome remote debugging port 9222 is not open''
   \<and> snd (connectWebSocketWithRetry_firefox sample_attempts 10 1000000000 sample_firefox) = None
   \<and> map_option error_text
         (snd (connectWebSocketWithRetry_firefox (\<lambda>i. attempt_refused) 3 1000000000 sample_firefox))
       = Some ''failed to connect to WebSocket after 3 attempts: Firefox remote debugging port 9223 is not open''"
proof -
  note ok = connectWebSocketWithRetry_spec
    [where k = 2 and N = 10 and env = sample_attempts and d = 1000000000
       and c = "chrome_literal ''chrome.exe'' [] :: nat Chrome" and f = sample_firefox]
  note chrome_fails = connectWebSocketWithRetry_spec
    [where N = 3 and env = "\<lambda>i. attempt_refused" and d = 1000000000
       and e = "\<lambda>j. PortNotOpen ''Chrome'' 9222"
       and c = "chrome_literal ''chrome.exe'' [] :: nat Chrome" and f = sample_firefox]
  note firefox_fails = connectWebSocketWithRetry_spec
    [where N = 3 and env = "\<lambda>i. attempt_refused" and d = 1000000000
       and e = "\<lambda>j. PortNotOpen ''Firefox'' 9223"
       and c = "chrome_literal ''chrome.exe'' [] :: nat Chrome" and f = sample_firefox]
  have 1: "snd (connectWebSocketWithRetry_chrome sample_attempts 10 1000000000
                  (chrome_literal ''chrome.exe'' [] :: nat Chrome)) = None"
    using ok [THEN conjunct1]
    by (simp add: sample_attempts_def attempt_refused_def attempt_ready_def
        connectWebSocket_chrome_def sample_conn_def)
  have 2: "snd (connectWebSocketWithRetry_firefox sample_attempts 10 1000000000 sample_firefox) = None"
    using ok [THEN conjunct2, THEN conjunct2, THEN conjunct1]
    by (simp add: sample_attempts_def attempt_refused_def attempt_ready_def
        connectWebSocket_firefox_def)
  have 3: "map_option error_text
         (snd (connectWebSocketWithRetry_chrome (\<lambda>i. attempt_refused) 3 1000000000
                 (chrome_literal ''chrome.exe'' [] :: nat Chrome)))
       = Some ''failed to connect to WebSocket after 3 attempts: Chrome remote debugging port 9222 is not open''"
    using chrome_fails [THEN conjunct2, THEN conjunct1]
    by (simp add: attempt_refused_def connectWebSocket_chrome_def show_int_def show_nat.simps
        digit_char_def)
  have 4: "map_option error_text
         (snd (connectWebSocketWithRetry_firefox (\<lambda>i. attempt_refused) 3 1000000000 sample_firefox))
       = Some ''failed to connect to WebSocket after 3 attempts: Firefox remote debugging port 9223 is not open''"
    using firefox_fails [THEN conjunct2, THEN conjunct2, THEN conjunct2]
    by (simp add: attempt_refused_def connectWebSocket_firefox_def show_int_def show_nat.simps
        digit_char_def)
  show ?thesis using 1 2 3 4 by simp
qed

section \<open>Chrome commands without a transport or with a failing transport\<close>

lemma JSON_Send_failed_conn: "JSON_Send failure ws m = (ws', Some e) \<Longrightarrow> ws' = ws"
  by (auto simp add: JSON_Send_def split: if_splits option.splits)

text \<open>
  C5. Take a Chrome session with the lock free and a transport. If sending the
  navigate request fails, \<^verbatim>\<open>Load\<close> returns the send failure; if sending the evaluate
  request fails, so does \<^verbatim>\<open>Eval\<close>. Either way the session is as before but for the
  counters of ids and channels: the registry has no entry under the id of the call,
  the lock is free again, nothing was written to the transport and the handler did
  not move, so nothing was delivered.
\<close>

theorem send_failure_cancels_slot:
  "\<not> Mutex c \<Longrightarrow> Ws c = Some ws \<Longrightarrow>
     (JSON_Send failure ws (navigate_message c url) = (ws', Some e) \<longrightarrow>
        Load_chrome failure url c
          = Returns (c\<lparr>Pending := (Pending c)(idStr (Id_chrome c) := None),
                       Chans := Suc (Chans c), Id_chrome := Id_chrome c + 1\<rparr>)
              (Some (SendFailed e)))
     \<and> (JSON_Send failure ws (evaluate_message c expr) = (ws', Some e) \<longrightarrow>
        Eval_chrome failure expr c
          = Returns (c\<lparr>Pending := (Pending c)(idStr (Id_chrome c) := None),
                       Chans := Suc (Chans c), Id_chrome := Id_chrome c + 1\<rparr>)
              ([], [], Some (SendFailed e)))"
proof (intro conjI impI)
  assume m: "\<not> Mutex c" and w: "Ws c = Some ws"
  {
    assume s: "JSON_Send failure ws (navigate_message c url) = (ws', Some e)"
    then have "ws' = ws" by (rule JSON_Send_failed_conn)
    then have keep: "c\<lparr>Ws := Some ws'\<rparr> = c" using w by simp
    have "navigate_message (Lock c) url = navigate_message c url"
      by (simp add: navigate_message_def Lock_def)
    then show "Load_chrome failure url c
          = Returns (c\<lparr>Pending := (Pending c)(idStr (Id_chrome c) := None),
                       Chans := Suc (Chans c), Id_chrome := Id_chrome c + 1\<rparr>)
              (Some (SendFailed e))"
      using m w s \<open>ws' = ws\<close>
      by (simp add: Load_chrome_def Let_def Lock_def Unlock_def)
  }
  {
    assume s: "JSON_Send failure ws (evaluate_message c expr) = (ws', Some e)"
    then have "ws' = ws" by (rule JSON_Send_failed_conn)
    have "evaluate_message (Lock c) expr = evaluate_message c expr"
      by (simp add: evaluate_message_def Lock_def)
    then show "Eval_chrome failure expr c
          = Returns (c\<lparr>Pending := (Pending c)(idStr (Id_chrome c) := None),
                       Chans := Suc (Chans c), Id_chrome := Id_chrome c + 1\<rparr>)
              ([], [], Some (SendFailed e))"
      using m w s \<open>ws' = ws\<close>
      by (simp add: Eval_chrome_def Let_def Lock_def Unlock_def)
  }
qed

theorem send_failure_cancels_slot_witness:
  "\<not> Mutex connected_chrome \<and> Ws connected_chrome = Some sample_conn
   \<and> JSON_Send (Some (External ''broken pipe'')) sample_conn
         (navigate_message connected_chrome ''https://new.grng.cc'')
       = (sample_conn, Some (External ''broken pipe''))
   \<and> JSON_Send (Some (External ''broken pipe'')) sample_conn
         (evaluate_message connected_chrome ''document.title'')
       = (sample_conn, Some (External ''broken pipe''))
   \<and> Load_chrome (Some (External ''broken pipe'')) ''https://new.grng.cc'' connected_chrome
       = Returns (connected_chrome\<lparr>Chans := 1, Id_chrome := 2\<rparr>)
           (Some (SendFailed (External ''broken pipe'')))
   \<and> Eval_chrome (Some (External ''broken pipe'')) ''document.title'' connected_chrome
       = Returns (connected_chrome\<lparr>Chans := 1, Id_chrome := 2\<rparr>)
           ([], [], Some (SendFailed (External ''broken pipe'')))"
proof -
  have m: "\<not> Mutex connected_chrome" by (simp add: connected_chrome_def)
  have w: "Ws connected_chrome = Some sample_conn" by (simp add: connected_chrome_def)
  have s1: "JSON_Send (Some (External ''broken pipe'')) sample_conn
         (navigate_message connected_chrome ''https://new.grng.cc'')
       = (sample_conn, Some (External ''broken pipe''))"
    by (simp add: JSON_Send_def sample_conn_def)
  have s2: "JSON_Send (Some (External ''broken pipe'')) sample_conn
         (evaluate_message connected_chrome ''document.title'')
       = (sample_conn, Some (External ''broken pipe''))"
    by (simp add: JSON_Send_def sample_conn_def)
  have p: "Pending connected_chrome = Map.empty" by (simp add: connected_chrome_def)
  have i: "Id_chrome connected_chrome = 1" "Chans connected_chrome = 0"
    by (simp_all add: connected_chrome_def)
  note t = send_failure_cancels_slot [OF m w, of "Some (External ''broken pipe'')"
      "''https://new.grng.cc''" sample_conn "External ''broken pipe''" "''document.title''"]
  show ?thesis using m w s1 s2 t by (simp add: p i)
qed

text \<open>
  C4, for Chrome. A call of \<^verbatim>\<open>Load\<close> or \<^verbatim>\<open>Eval\<close> made with the lock free while the session
  has no transport returns the error that the connection is not established. It
  returns at once, never waiting on a channel, and leaves the session as it was: no
  entry is registered, no id is used and nothing is sent.
\<close>

theorem Chrome_not_connected:
  "\<not> Mutex c \<Longrightarrow> Ws c = None \<Longrightarrow>
     Load_chrome failure url c = Returns c (Some NotConnected)
     \<and> Eval_chrome failure expr c = Returns c ([], [], Some NotConnected)
     \<and> error_text NotConnected = ''WebSocket connection is not established''"
  by (simp add: Load_chrome_def Eval_chrome_def Let_def Lock_def Unlock_def)

theorem Chrome_not_connected_witness:
  "\<not> Mutex (chrome_literal ''chrome.exe'' [] :: nat Chrome)
   \<and> Ws (chrome_literal ''chrome.exe'' [] :: nat Chrome) = None
   \<and> Load_chrome None ''https://new.grng.cc'' (chrome_literal ''chrome.exe'' [] :: nat Chrome)
       = Returns (chrome_literal ''chrome.exe'' []) (Some NotConnected)
   \<and> Eval_chrome None ''document.title'' (chrome_literal ''chrome.exe'' [] :: nat Chrome)
       = Returns (chrome_literal ''chrome.exe'' []) ([], [], Some NotConnected)"
proof -
  have m: "\<not> Mutex (chrome_literal ''chrome.exe'' [] :: nat Chrome)"
    by (simp add: chrome_literal_def)
  have w: "Ws (chrome_literal ''chrome.exe'' [] :: nat Chrome) = None"
    by (simp add: chrome_literal_def)
  show ?thesis
    using m w Chrome_not_connected [OF m w, of None "''https://new.grng.cc''" "''document.title''"]
    by simp
qed

text \<open>
  C4 fails for Firefox: its session never has a transport, and its \<^verbatim>\<open>Load\<close> and \<^verbatim>\<open>Eval\<close>
  return nil all the same.
\<close>

theorem Firefox_not_connected_counterexample:
  "Ws sample_firefox = None
   \<and> Load_firefox ''https://new.grng.cc'' sample_firefox = Returns sample_firefox None
   \<and> Eval_firefox ''document.title'' sample_firefox = Returns sample_firefox ([], [], None)"
  by (simp add: sample_firefox_def firefox_literal_def Load_firefox_def Eval_firefox_def)

section \<open>The value returned by Eval\<close>









section \<open>The lock while a command waits for its reply\<close>

text \<open>\<^verbatim>\<open>Eval\<close> has released the lock when it waits on its channel; \<^verbatim>\<open>Load\<close>, whose unlock
  is deferred, still holds it.\<close>

lemma Eval_waits_unlocked:
  "Eval_chrome failure expr c = Waits c' (OnChan ch) \<Longrightarrow> \<not> Mutex c'"
  by (auto simp add: Eval_chrome_def Let_def Lock_def Unlock_def
      split: if_splits option.splits prod.splits)

lemma Load_waits_locked:
  "Load_chrome failure url c = Waits c' (OnChan ch) \<Longrightarrow> Mutex c'"
  by (auto simp add: Load_chrome_def Let_def Lock_def Unlock_def
      split: if_splits option.splits prod.splits)

text \<open>The handler cannot deliver a frame while the lock is held.\<close>

lemma handler_needs_lock:
  "Mutex b \<Longrightarrow> Handler b = AtLock res \<Longrightarrow> handler_step inc b = None"
  by (simp add: handler_step_def)

text \<open>With \<^verbatim>\<open>Eval\<close> waiting, the handler takes the lock, hands the reply over on the
  channel of the request and removes the entry.\<close>

lemma Eval_reply_delivered:
  "handler_step (RecvFrame sample_reply) evaluating_chrome
     = Some (evaluating_chrome\<lparr>Handler := AtLock sample_reply\<rparr>)
   \<and> handler_step (RecvFrame sample_reply) (evaluating_chrome\<lparr>Handler := AtLock sample_reply\<rparr>)
     = Some (evaluating_chrome\<lparr>Mutex := True, Handler := Sending (Chan 0) sample_reply\<rparr>)
   \<and> handler_send (evaluating_chrome\<lparr>Mutex := True, Handler := Sending (Chan 0) sample_reply\<rparr>)
     = Some (evaluating_chrome\<lparr>Pending := Map.empty, Handler := AtSelect\<rparr>,
             Chan 0, DynResult sample_reply)"
  by (simp add: handler_step_def handler_send_def evaluating_chrome_def connected_chrome_def
      sample_reply_def Lock_def Unlock_def idStr_def show_int_def show_nat.simps digit_char_def)

text \<open>
  C1 at a concrete call. \<^verbatim>\<open>Load\<close> on the connected sample session sends its request and
  waits on its channel with the lock still held. The handler reads the reply to that
  request and then stops for the lock; it cannot move again, so the reply is never
  delivered. \<^verbatim>\<open>Kill\<close> cannot get the lock either.
\<close>

theorem Load_keeps_lock_while_waiting:
  "Load_chrome None ''https://new.grng.cc'' connected_chrome
     = Waits (loading_chrome\<lparr>Handler := AtSelect\<rparr>) (OnChan (Chan 0))
   \<and> Mutex loading_chrome
   \<and> Pending loading_chrome (idStr (ID sample_reply)) = Some (Chan 0)
   \<and> handler_step (RecvFrame sample_reply) (loading_chrome\<lparr>Handler := AtSelect\<rparr>)
       = Some loading_chrome
   \<and> handler_step (RecvFrame sample_reply) loading_chrome
       = Some (loading_chrome\<lparr>Handler := AtLock sample_reply\<rparr>)
   \<and> handler_step (RecvFrame sample_reply) (loading_chrome\<lparr>Handler := AtLock sample_reply\<rparr>)
       = None
   \<and> Kill sample_kill_env loading_chrome = Waits loading_chrome OnLock"
  by (simp add: Load_chrome_def loading_chrome_def connected_chrome_def Lock_def Unlock_def
      Let_def JSON_Send_def sample_conn_def idStr_def show_int_def show_nat.simps digit_char_def
      navigate_message_def handler_step_def sample_reply_def Kill_def)

section \<open>Kill: the wait for the handler\<close>

lemma handler_step_locked:
  assumes "Mutex b" and "handler_step inc b = Some b1"
  shows "b1 = b\<lparr>Wg := Wg b1, Handler := Handler b1\<rparr> \<and> Mutex b1
         \<and> (Wg b \<noteq> 0 \<longrightarrow> handler_running b1 \<longrightarrow> 0 < Wg b1)"
  using assms
  by (auto simp add: handler_step_def handler_running_def
      split: handler.splits if_splits option.splits recv.splits)

text \<open>
  When the wait ends while the caller holds the lock, only the counter and the
  position of the handler have changed: the counter is zero and, if a running handler
  was counted, the handler has returned.
\<close>

lemma Wg_Wait_Some:
  assumes "Wg_Wait inc b = Some y"
  shows "Mutex b \<longrightarrow>
           y = b\<lparr>Wg := 0, Handler := Handler y\<rparr>
           \<and> ((handler_running b \<longrightarrow> 0 < Wg b) \<longrightarrow> \<not> handler_running y)"
proof (rule Wg_Wait.raw_induct
    [where P = "\<lambda>inc b y. Mutex b \<longrightarrow>
                  y = b\<lparr>Wg := 0, Handler := Handler y\<rparr>
                  \<and> ((handler_running b \<longrightarrow> 0 < Wg b) \<longrightarrow> \<not> handler_running y)"])
  show "Wg_Wait inc b = Some y" by (rule assms)
next
  fix wait :: "recv \<Rightarrow> ('a, 'b) BaseBrowser_scheme \<Rightarrow> ('a, 'b) BaseBrowser_scheme option"
  fix inc b y
  assume IH: "\<And>inc b y. wait inc b = Some y \<Longrightarrow>
                Mutex b \<longrightarrow>
                  y = b\<lparr>Wg := 0, Handler := Handler y\<rparr>
                  \<and> ((handler_running b \<longrightarrow> 0 < Wg b) \<longrightarrow> \<not> handler_running y)"
    and eq: "(if Wg b = 0 then Some b
              else case handler_step inc b of None \<Rightarrow> None | Some b' \<Rightarrow> wait inc b') = Some y"
  show "Mutex b \<longrightarrow>
          y = b\<lparr>Wg := 0, Handler := Handler y\<rparr>
          \<and> ((handler_running b \<longrightarrow> 0 < Wg b) \<longrightarrow> \<not> handler_running y)"
  proof (cases "Wg b = 0")
    case True
    then have yb: "y = b" using eq by simp
    show ?thesis
    proof (intro impI conjI)
      show "y = b\<lparr>Wg := 0, Handler := Handler y\<rparr>"
        unfolding yb using True by simp
      assume "handler_running b \<longrightarrow> 0 < Wg b"
      then show "\<not> handler_running y"
        unfolding yb using True by auto
    qed
  next
    case False
    then obtain b1 where s: "handler_step inc b = Some b1" and w: "wait inc b1 = Some y"
      using eq by (auto split: option.splits)
    show ?thesis
    proof (intro impI)
      assume m: "Mutex b"
      note st = handler_step_locked [OF m s]
      have b1: "b1 = b\<lparr>Wg := Wg b1, Handler := Handler b1\<rparr>" using st by simp
      have "y = b1\<lparr>Wg := 0, Handler := Handler y\<rparr> \<and> \<not> handler_running y"
        using IH [OF w] st False by simp
      moreover have "b1\<lparr>Wg := 0, Handler := Handler y\<rparr> = b\<lparr>Wg := 0, Handler := Handler y\<rparr>"
        by (subst b1) simp
      ultimately show "y = b\<lparr>Wg := 0, Handler := Handler y\<rparr>
          \<and> ((handler_running b \<longrightarrow> 0 < Wg b) \<longrightarrow> \<not> handler_running y)"
        by simp
    qed
  qed
qed

lemma Kill_locked: "Mutex b \<Longrightarrow> Kill env b = Waits b OnLock"
  by (simp add: Kill_def)

lemma Kill_phases:
  "\<not> Mutex b \<Longrightarrow>
     Kill env b =
       (case Wg_Wait (incoming env) (before_Wait env b) of
          None \<Rightarrow> Waits (before_Wait env b) OnWaitGroup
        | Some b' \<Rightarrow> after_Wait env b')"
  by (simp add: Kill_def before_Wait_def after_Wait_def close_Done_def Let_def
      split: option.splits)

lemma before_Wait_fields:
  "Mutex (before_Wait env b)" "Done (before_Wait env b)"
  "Closes (before_Wait env b) = (if Done b then Closes b else Suc (Closes b))"
  "Pending (before_Wait env b) = Pending b" "Wg (before_Wait env b) = Wg b"
  "Handler (before_Wait env b) = Handler b" "Cmd (before_Wait env b) = Cmd b"
  by (simp_all add: before_Wait_def Lock_def Let_def split: option.splits)

lemma after_Wait_fields:
  assumes "after_Wait env b = Returns b' r"
  shows "\<not> Mutex b'" "Done b' = Done b" "Closes b' = Closes b" "Pending b' = Pending b"
    "Wg b' = Wg b" "Handler b' = Handler b"
  using assms
  by (auto simp add: after_Wait_def Unlock_def set_Process_def
      split: option.splits prod.splits if_splits)

lemma set_Process_same: "Process (Cmd b) = Some p \<Longrightarrow> set_Process p b = b"
proof -
  assume "Process (Cmd b) = Some p"
  then have "(Cmd b)\<lparr>Process := Some p\<rparr> = Cmd b"
    by (metis cmd.surjective cmd.update_convs(3))
  then show ?thesis by (simp add: set_Process_def)
qed

lemma after_Wait_gone:
  assumes "process_gone b"
  shows "after_Wait env b = Returns (Unlock b) None"
proof (cases "Process (Cmd b)")
  case None
  then show ?thesis by (simp add: after_Wait_def)
next
  case (Some p)
  then have dead: "\<not> Alive p" using assms by (simp add: process_gone_def)
  have same: "set_Process p b = b" using Some by (rule set_Process_same)
  show ?thesis
    using Some dead same
    by (simp add: after_Wait_def Signal_Kill_def isProcessRunning_def
        split: option.splits)
qed


lemma after_Wait_kills:
  assumes "after_Wait env b = Returns b' r" and "kill_error env = None"
  shows "process_gone b'"
proof (cases "Process (Cmd b)")
  case None
  then show ?thesis using assms(1) by (auto simp add: after_Wait_def process_gone_def Unlock_def)
next
  case (Some p)
  show ?thesis
  proof (cases "Alive p")
    case True
    then show ?thesis
      using Some assms
      by (auto simp add: after_Wait_def Signal_Kill_def process_gone_def Unlock_def
          set_Process_def)
  next
    case False
    then have "process_gone b" using Some by (simp add: process_gone_def)
    then have "b' = Unlock b" using assms(1) by (simp add: after_Wait_gone)
    then show ?thesis using Some False by (simp add: process_gone_def Unlock_def)
  qed
qed

lemma Kill_Returns:
  assumes "Kill env b = Returns b' r"
  obtains b4 where "\<not> Mutex b" and "Wg_Wait (incoming env) (before_Wait env b) = Some b4"
    and "after_Wait env b4 = Returns b' r"
proof -
  have m: "\<not> Mutex b" using assms by (auto simp add: Kill_locked)
  then show ?thesis using assms that by (auto simp add: Kill_phases split: option.splits)
qed

text \<open>When the system kills the process at the first request, the process is gone
  after \<^verbatim>\<open>Kill\<close>.\<close>

lemma Kill_ends_process:
  "Kill env b = Returns b' r \<Longrightarrow> kill_error env = None \<Longrightarrow> process_gone b'"
  by (erule Kill_Returns) (rule after_Wait_kills)

text \<open>The sample session with \<^verbatim>\<open>Eval\<close> waiting is reached from the connected one, and
  \<^verbatim>\<open>Kill\<close> takes it to the killed one.\<close>

lemma evaluating_chrome_reached:
  "Eval_chrome None ''document.title'' connected_chrome
     = Waits (evaluating_chrome\<lparr>Handler := AtSelect\<rparr>) (OnChan (Chan 0))
   \<and> handler_step RecvBlocks (evaluating_chrome\<lparr>Handler := AtSelect\<rparr>) = Some evaluating_chrome"
  by (simp add: Eval_chrome_def evaluating_chrome_def connected_chrome_def Lock_def Unlock_def
      Let_def JSON_Send_def sample_conn_def idStr_def show_int_def show_nat.simps digit_char_def
      evaluate_message_def handler_step_def)

lemma Kill_sample: "Kill sample_kill_env evaluating_chrome = Returns killed_chrome None"
proof -
  have m: "\<not> Mutex evaluating_chrome"
    by (simp add: evaluating_chrome_def connected_chrome_def)
  have "Wg_Wait RecvBlocks (before_Wait sample_kill_env evaluating_chrome)
        = Some ((before_Wait sample_kill_env evaluating_chrome)\<lparr>Wg := 0, Handler := Exited\<rparr>)"
    by (simp add: Wg_Wait.simps handler_step_def before_Wait_def evaluating_chrome_def
        connected_chrome_def Lock_def Let_def Ws_Close_def sample_kill_env_def)
  then show ?thesis
    using m
    by (simp add: Kill_phases sample_kill_env_def after_Wait_def before_Wait_def
        evaluating_chrome_def connected_chrome_def killed_chrome_def Lock_def Unlock_def Let_def
        Ws_Close_def Signal_Kill_def set_Process_def sample_process_def)
qed

section \<open>Kill: what holds when it has returned\<close>

text \<open>
  C2, as the code has it. Suppose that a running handler is counted by the wait group
  (as \<^verbatim>\<open>New\<close> arranges) and that \<^verbatim>\<open>Kill\<close> returns. Then the counter of the wait group is
  zero, the handler is no longer running, the stop signal is set and the lock is
  free; and the registry of outstanding requests is exactly what it was when \<^verbatim>\<open>Kill\<close>
  was called, so it is empty only if it was empty then.
\<close>

theorem Kill_completed:
  assumes "Kill env b = Returns b' r" and "handler_running b \<longrightarrow> 0 < Wg b"
  shows "Wg b' = 0 \<and> \<not> handler_running b' \<and> Done b' \<and> \<not> Mutex b' \<and> Pending b' = Pending b"
proof -
  from assms(1) obtain b4 where w: "Wg_Wait (incoming env) (before_Wait env b) = Some b4"
    and a: "after_Wait env b4 = Returns b' r"
    by (rule Kill_Returns)
  have inv: "handler_running (before_Wait env b) \<longrightarrow> 0 < Wg (before_Wait env b)"
    using assms(2) by (simp add: handler_running_def before_Wait_fields)
  have b4: "b4 = (before_Wait env b)\<lparr>Wg := 0, Handler := Handler b4\<rparr>"
    and stopped: "\<not> handler_running b4"
    using Wg_Wait_Some [OF w] inv by (simp_all add: before_Wait_fields)
  have "Wg b4 = 0" by (subst b4) simp
  moreover have "Pending b4 = Pending b" by (subst b4) (simp add: before_Wait_fields)
  moreover have "Done b4" by (subst b4) (simp add: before_Wait_fields)
  moreover have "handler_running b' = handler_running b4"
    using after_Wait_fields(6) [OF a] by (simp add: handler_running_def)
  ultimately show ?thesis
    using after_Wait_fields [OF a] stopped by simp
qed

theorem Kill_completed_witness:
  "Kill sample_kill_env evaluating_chrome = Returns killed_chrome None
   \<and> handler_running evaluating_chrome \<and> 0 < Wg evaluating_chrome
   \<and> Wg killed_chrome = 0 \<and> \<not> handler_running killed_chrome \<and> Done killed_chrome
   \<and> \<not> Mutex killed_chrome \<and> Pending killed_chrome = Pending evaluating_chrome"
proof -
  have running: "handler_running evaluating_chrome"
    by (simp add: handler_running_def evaluating_chrome_def)
  have counted: "0 < Wg evaluating_chrome"
    by (simp add: evaluating_chrome_def connected_chrome_def)
  then have inv: "handler_running evaluating_chrome \<longrightarrow> 0 < Wg evaluating_chrome"
    by simp
  show ?thesis
    using Kill_sample running counted Kill_completed [OF Kill_sample inv] by simp
qed

text \<open>
  C2 fails as stated: called while \<^verbatim>\<open>Eval\<close> waits for its reply, \<^verbatim>\<open>Kill\<close> returns nil with
  the handler gone, and the entry of that request is still in the registry.
\<close>

theorem Kill_pending_counterexample:
  "Kill sample_kill_env evaluating_chrome = Returns killed_chrome None
   \<and> Handler killed_chrome = Exited
   \<and> Pending killed_chrome ''1'' = Some (Chan 0)"
  using Kill_sample by (simp add: killed_chrome_def evaluating_chrome_def)



end
